theory Spec2Isabelle
  imports Complex_Main
begin

section \<open>Vectors and matrices\<close>

text \<open>
  \<^verbatim>\<open>main.js\<close> computes with the classes \<^verbatim>\<open>Vector3\<close> and \<^verbatim>\<open>Matrix4\<close> of the
  matrix library that the page loads beside it; the library is not among the sources, so
  its operations are modelled from the specification (a 3-vector with add, subtract,
  scalar multiply, normalize and cross product under "standard Euclidean semantics", a
  4x4 matrix with translate, scale, rotate and look-at).

  The components of a \<^verbatim>\<open>Float32Array\<close> are modelled as real numbers: every
  statement below is about exact arithmetic, and rounding is outside the model.
  The JavaScript methods mutate their receiver and return it; the model returns the
  new value, and every place where the script copies a vector first
  (\<^verbatim>\<open>new Vector3(v.elements)\<close>) is a plain use of the value.
\<close>

datatype vec3 = Vec3 (vx: real) (vy: real) (vz: real)

text \<open>Modelled from the spec: \<^verbatim>\<open>Vector3.add\<close> of the absent library, componentwise sum.\<close>

definition Vector3_add :: "vec3 \<Rightarrow> vec3 \<Rightarrow> vec3" where
  "Vector3_add a b = Vec3 (vx a + vx b) (vy a + vy b) (vz a + vz b)"

text \<open>Modelled from the spec: \<^verbatim>\<open>Vector3.sub\<close> of the absent library, componentwise difference.\<close>

definition Vector3_sub :: "vec3 \<Rightarrow> vec3 \<Rightarrow> vec3" where
  "Vector3_sub a b = Vec3 (vx a - vx b) (vy a - vy b) (vz a - vz b)"

text \<open>Modelled from the spec: \<^verbatim>\<open>Vector3.mul\<close> of the absent library, scalar multiple.\<close>

definition Vector3_mul :: "vec3 \<Rightarrow> real \<Rightarrow> vec3" where
  "Vector3_mul a k = Vec3 (vx a * k) (vy a * k) (vz a * k)"

text \<open>Modelled from the spec: the dot product of the testable properties.\<close>

definition Vector3_dot :: "vec3 \<Rightarrow> vec3 \<Rightarrow> real" where
  "Vector3_dot a b = vx a * vx b + vy a * vy b + vz a * vz b"

text \<open>Modelled from the spec: the Euclidean length of a vector.\<close>

definition Vector3_magnitude :: "vec3 \<Rightarrow> real" where
  "Vector3_magnitude a = sqrt (vx a * vx a + vy a * vy a + vz a * vz a)"

text \<open>
  Modelled from the spec: \<^verbatim>\<open>Vector3.normalize\<close> of the absent library, the vector
  divided by its length. What the library does with the zero vector is not known from
  the sources; the model leaves it unchanged, and no theorem below relies on that case
  without saying so.
\<close>

definition Vector3_normalize :: "vec3 \<Rightarrow> vec3" where
  "Vector3_normalize a =
     (let m = Vector3_magnitude a
      in if m = 0 then a else Vec3 (vx a / m) (vy a / m) (vz a / m))"

text \<open>
  Modelled from the spec: \<^verbatim>\<open>Vector3.cross\<close> of the absent library. The script calls
  it as \<^verbatim>\<open>Vector3.cross(right, viewDir, up)\<close> on a fresh \<^verbatim>\<open>right\<close>; following the
  specification (\<^verbatim>\<open>right = cross(viewDir, up)\<close>) the model takes the two operands and
  returns what the call leaves in \<^verbatim>\<open>right\<close>.
\<close>

definition Vector3_cross :: "vec3 \<Rightarrow> vec3 \<Rightarrow> vec3" where
  "Vector3_cross a b =
     Vec3 (vy a * vz b - vz a * vy b) (vz a * vx b - vx a * vz b) (vx a * vy b - vy a * vx b)"

text \<open>
  Modelled from the spec: the constructor \<^verbatim>\<open>new Vector3(src)\<close> of the absent
  library, a vector with the three components of its argument.
\<close>

definition Vector3_new :: "vec3 \<Rightarrow> vec3" where
  "Vector3_new src = Vec3 (vx src) (vy src) (vz src)"

text \<open>
  A \<^verbatim>\<open>Matrix4\<close> is its \<^verbatim>\<open>elements\<close> array: sixteen numbers, column by column.
\<close>

type_synonym mat4 = "real list"

text \<open>Modelled from the spec: \<^verbatim>\<open>new Matrix4()\<close> of the absent library, the identity.\<close>

definition Matrix4_new :: mat4 where
  "Matrix4_new = [1, 0, 0, 0,  0, 1, 0, 0,  0, 0, 1, 0,  0, 0, 0, 1]"

text \<open>Modelled from the spec: \<^verbatim>\<open>Matrix4.setTranslate\<close> of the absent library.\<close>

definition setTranslate :: "real \<Rightarrow> real \<Rightarrow> real \<Rightarrow> mat4" where
  "setTranslate x y z = [1, 0, 0, 0,  0, 1, 0, 0,  0, 0, 1, 0,  x, y, z, 1]"

text \<open>
  Modelled from the spec: \<^verbatim>\<open>Matrix4.scale\<close> of the absent library, the matrix
  multiplied from the right by a scaling: the first three columns are scaled.
\<close>

definition scale :: "mat4 \<Rightarrow> real \<Rightarrow> real \<Rightarrow> real \<Rightarrow> mat4" where
  "scale e x y z =
     [e ! 0 * x, e ! 1 * x, e ! 2 * x, e ! 3 * x,
      e ! 4 * y, e ! 5 * y, e ! 6 * y, e ! 7 * y,
      e ! 8 * z, e ! 9 * z, e ! 10 * z, e ! 11 * z,
      e ! 12, e ! 13, e ! 14, e ! 15]"

text \<open>
  Modelled from the spec: \<^verbatim>\<open>Matrix4.setRotate(angle, x, y, z)\<close> of the absent library,
  the rotation by \<open>angle\<close> degrees about the axis \<open>(x, y, z)\<close>, which is scaled to unit
  length first. The script only passes the components of \<^verbatim>\<open>up\<close> as the axis.
\<close>

definition setRotate :: "real \<Rightarrow> real \<Rightarrow> real \<Rightarrow> real \<Rightarrow> mat4" where
  "setRotate angle x0 y0 z0 =
     (let rad = pi * angle / 180;
          s = sin rad; c = cos rad;
          len = sqrt (x0 * x0 + y0 * y0 + z0 * z0);
          x = x0 / len; y = y0 / len; z = z0 / len;
          nc = 1 - c
      in [x * x * nc + c,     x * y * nc + z * s, z * x * nc - y * s, 0,
          x * y * nc - z * s, y * y * nc + c,     y * z * nc + x * s, 0,
          z * x * nc + y * s, y * z * nc - x * s, z * z * nc + c,     0,
          0, 0, 0, 1])"

text \<open>
  Modelled from the spec: \<^verbatim>\<open>Matrix4.multiplyVector3\<close> of the absent library, the
  matrix applied to a point; it returns a new vector.
\<close>

definition multiplyVector3 :: "mat4 \<Rightarrow> vec3 \<Rightarrow> vec3" where
  "multiplyVector3 e p =
     Vec3 (vx p * e ! 0 + vy p * e ! 4 + vz p * e ! 8 + e ! 12)
          (vx p * e ! 1 + vy p * e ! 5 + vz p * e ! 9 + e ! 13)
          (vx p * e ! 2 + vy p * e ! 6 + vz p * e ! 10 + e ! 14)"

text \<open>
  Modelled from the spec: \<^verbatim>\<open>Matrix4.setLookAt\<close> of the absent library, the standard
  look-at matrix of an eye position, a target and an up vector (glossary: "a view
  transform constructed from an eye position, a target point, and an up vector").
\<close>

definition setLookAt :: "vec3 \<Rightarrow> vec3 \<Rightarrow> vec3 \<Rightarrow> mat4" where
  "setLookAt e c u =
     (let f = Vector3_normalize (Vector3_sub c e);
          s = Vector3_normalize (Vector3_cross f u);
          t = Vector3_cross s f
      in [vx s, vx t, - vx f, 0,
          vy s, vy t, - vy f, 0,
          vz s, vz t, - vz f, 0,
          - Vector3_dot s e, - Vector3_dot t e, Vector3_dot f e, 1])"


section \<open>The calls sent to the graphics context\<close>

text \<open>
  The script draws by calling methods of the WebGL context \<^verbatim>\<open>gl\<close>. The model records
  the calls of \<^verbatim>\<open>Cube\<close> and \<^verbatim>\<open>drawScene\<close> in the order they are made. Byte counts
  are those of the source: \<^verbatim>\<open>FSIZE\<close> is the size of a 32-bit float.
\<close>

datatype uniform = U_ModelMatrix | U_ViewMatrix | U_ProjectionMatrix | U_texColorWeight | U_baseColor

datatype attribute = A_Position | A_UV

datatype draw_mode = POINTS | LINES | LINE_LOOP | LINE_STRIP | TRIANGLES | TRIANGLE_STRIP | TRIANGLE_FAN

datatype gl_call =
    Enable_DEPTH_TEST
  | ClearColor real real real real
  | Clear_COLOR_DEPTH
  | UniformMatrix4fv uniform mat4
  | Uniform1f uniform real
  | Uniform4fv uniform "real list"
  | CreateBuffer
  | BindBuffer_ARRAY
  | BufferData_ARRAY "real list"
  | VertexAttribPointer attribute nat nat nat
  | EnableVertexAttribArray attribute
  | DrawArrays draw_mode nat nat

text \<open>\<^verbatim>\<open>BYTES_PER_ELEMENT\<close> of a \<^verbatim>\<open>Float32Array\<close>.\<close>

definition FSIZE :: nat where
  "FSIZE = 4"

record cube =
  modelMatrix :: mat4
  texWeight :: real
  baseColor :: "real list"
  vertices :: "real list"

text \<open>
  \<^verbatim>\<open>new Cube(gl, program, modelMatrix, texWeight, baseColor)\<close>: the object, and the calls
  its constructor makes. The two \<^verbatim>\<open>getAttribLocation\<close> queries change nothing and are
  not recorded; \<^verbatim>\<open>new Matrix4(modelMatrix)\<close> is a copy of the matrix.
\<close>

definition Cube_vertices :: "real list" where
  "Cube_vertices =
     [-0.5, -0.5, 0.5, 0, 0,
       0.5, -0.5, 0.5, 1, 0,
      -0.5,  0.5, 0.5, 0, 1,
       0.5,  0.5, 0.5, 1, 1]"

definition Cube_new :: "mat4 \<Rightarrow> real \<Rightarrow> real list \<Rightarrow> cube" where
  "Cube_new m w c =
     \<lparr>modelMatrix = m, texWeight = w, baseColor = c, vertices = Cube_vertices\<rparr>"

definition Cube_new_calls :: "cube \<Rightarrow> gl_call list" where
  "Cube_new_calls this =
     [CreateBuffer, BindBuffer_ARRAY, BufferData_ARRAY (vertices this),
      VertexAttribPointer A_Position 3 (FSIZE * 5) 0,
      EnableVertexAttribArray A_Position,
      VertexAttribPointer A_UV 2 (FSIZE * 5) (FSIZE * 3),
      EnableVertexAttribArray A_UV]"

text \<open>\<^verbatim>\<open>Cube.draw\<close>.\<close>

definition Cube_draw :: "cube \<Rightarrow> gl_call list" where
  "Cube_draw this =
     [UniformMatrix4fv U_ModelMatrix (modelMatrix this),
      Uniform1f U_texColorWeight (texWeight this),
      Uniform4fv U_baseColor (baseColor this),
      DrawArrays TRIANGLE_STRIP 0 4]"

text \<open>The three kinds of cube that \<^verbatim>\<open>drawScene\<close> builds.\<close>

definition sky :: cube where
  "sky = Cube_new (scale (setTranslate 2 2 2) 50 50 50) 0 [0.3, 0.5, 1, 1]"

definition ground :: cube where
  "ground = Cube_new (scale (setTranslate 2 (-0.1) 2) 8 0.1 8) 0 [0.3, 0.8, 0.3, 1]"

definition stack_cube :: "nat \<Rightarrow> nat \<Rightarrow> nat \<Rightarrow> cube" where
  "stack_cube i h j = Cube_new (setTranslate (real i) (real h) (real j)) 1 [1, 1, 1, 1]"

text \<open>Building a cube and drawing it at once, as \<^verbatim>\<open>drawScene\<close> does with each.\<close>

definition build_and_draw :: "cube \<Rightarrow> gl_call list" where
  "build_and_draw c = Cube_new_calls c @ Cube_draw c"

section \<open>The height grid and the loops of drawScene\<close>

text \<open>
  The grid \<^verbatim>\<open>map\<close> is an array of rows of integers. The loops of \<^verbatim>\<open>drawScene\<close> run
  \<open>i\<close> over the rows and \<open>j\<close> below the length of row 0, whatever the length of row
  \<open>i\<close>; a read past the end of a row gives \<^verbatim>\<open>undefined\<close>, and \<^verbatim>\<open>h < undefined\<close> is
  false, so such a cell draws nothing.
\<close>

type_synonym grid = "int list list"

definition cell :: "grid \<Rightarrow> nat \<Rightarrow> nat \<Rightarrow> int option" where
  "cell g i j = (if j < length (g ! i) then Some (g ! i ! j) else None)"

definition below_height :: "nat \<Rightarrow> int option \<Rightarrow> bool" where
  "below_height h height = (case height of None \<Rightarrow> False | Some v \<Rightarrow> int h < v)"

function loop_h :: "nat \<Rightarrow> nat \<Rightarrow> int option \<Rightarrow> nat \<Rightarrow> gl_call list" where
  "loop_h i j height h =
     (if below_height h height
      then build_and_draw (stack_cube i h j) @ loop_h i j height (Suc h)
      else [])"
  by pat_completeness auto
termination
  by (relation "measure (\<lambda>(i, j, height, h). case height of None \<Rightarrow> 0 | Some v \<Rightarrow> nat (v - int h))")
     (auto simp: below_height_def split: option.splits)

function loop_j :: "grid \<Rightarrow> nat \<Rightarrow> nat \<Rightarrow> gl_call list" where
  "loop_j g i j =
     (if j < length (g ! 0)
      then loop_h i j (cell g i j) 0 @ loop_j g i (Suc j)
      else [])"
  by pat_completeness auto
termination
  by (relation "measure (\<lambda>(g, i, j). length (g ! 0) - j)") auto

function loop_i :: "grid \<Rightarrow> nat \<Rightarrow> gl_call list" where
  "loop_i g i =
     (if i < length g
      then loop_j g i 0 @ loop_i g (Suc i)
      else [])"
  by pat_completeness auto
termination
  by (relation "measure (\<lambda>(g, i). length g - i)") auto

declare loop_h.simps [simp del] loop_j.simps [simp del] loop_i.simps [simp del]

definition drawScene_calls :: "mat4 \<Rightarrow> mat4 \<Rightarrow> grid \<Rightarrow> gl_call list" where
  "drawScene_calls view proj g =
     [ClearColor 0.5 0.7 1 1, Clear_COLOR_DEPTH,
      UniformMatrix4fv U_ViewMatrix view,
      UniformMatrix4fv U_ProjectionMatrix proj]
     @ build_and_draw sky
     @ build_and_draw ground
     @ loop_i g 0"

section \<open>The program state and the event handlers\<close>

text \<open>
  The global variables of the script, and the calls made so far. The grid \<^verbatim>\<open>map\<close> is
  a constant of the script; it is a field here so that the drawing can be stated for any
  grid. \<^verbatim>\<open>console.log\<close> output is not modelled.
\<close>

record world =
  eye :: vec3
  forward :: vec3
  up :: vec3
  at_vec :: vec3
  viewMatrix :: mat4
  projectionMatrix :: mat4
  map_grid :: grid
  gl_trace :: "gl_call list"

definition updateViewMatrix :: "world \<Rightarrow> world" where
  "updateViewMatrix s = s\<lparr>viewMatrix := setLookAt (eye s) (at_vec s) (up s)\<rparr>"

definition drawScene :: "world \<Rightarrow> world" where
  "drawScene s =
     s\<lparr>gl_trace := gl_trace s @ drawScene_calls (viewMatrix s) (projectionMatrix s) (map_grid s)\<rparr>"

definition move :: "vec3 \<Rightarrow> world \<Rightarrow> world" where
  "move dirVec s =
     (let moveVec = Vector3_mul (Vector3_normalize (Vector3_new dirVec)) 0.3;
          s1 = s\<lparr>eye := Vector3_add (eye s) moveVec\<rparr>;
          s2 = s1\<lparr>at_vec := Vector3_add (at_vec s1) moveVec\<rparr>
      in drawScene (updateViewMatrix s2))"

text \<open>The vector \<^verbatim>\<open>right\<close> that the cases \<^verbatim>\<open>KeyA\<close> and \<^verbatim>\<open>KeyD\<close> compute.\<close>

definition strafe_right :: "world \<Rightarrow> vec3" where
  "strafe_right s =
     (let viewDir = Vector3_normalize (Vector3_sub (Vector3_new (at_vec s)) (eye s));
          right = Vector3_cross viewDir (up s)
      in Vector3_normalize right)"

text \<open>
  The yaw cases \<^verbatim>\<open>KeyQ\<close> (angle -5) and \<^verbatim>\<open>KeyE\<close> (angle 5). The source writes
  \<^verbatim>\<open>at = new Vector3(eye).add(forward)\<close>, handing the constructor the vector itself
  where every other copy hands it \<^verbatim>\<open>.elements\<close>; what the constructor of the absent
  library makes of that argument is not known from the sources, and the model takes it
  to copy \<^verbatim>\<open>eye\<close>, as the specification does ("recomputes \<^verbatim>\<open>at = eye + forward\<close>").
\<close>

definition yaw_key :: "real \<Rightarrow> world \<Rightarrow> world" where
  "yaw_key angle s =
     (let s1 = s\<lparr>forward := Vector3_normalize
                  (multiplyVector3 (setRotate angle (vx (up s)) (vy (up s)) (vz (up s))) (forward s))\<rparr>
      in s1\<lparr>at_vec := Vector3_add (Vector3_new (eye s1)) (forward s1)\<rparr>)"

text \<open>
  The \<^verbatim>\<open>keydown\<close> listener: the \<^verbatim>\<open>switch\<close> on \<^verbatim>\<open>e.code\<close>, then
  \<^verbatim>\<open>updateViewMatrix()\<close> and \<^verbatim>\<open>drawScene()\<close> whatever the key was.
\<close>

definition keydown :: "string \<Rightarrow> world \<Rightarrow> world" where
  "keydown code s =
     (let s1 =
        (if code = ''KeyW'' then move (forward s) s
         else if code = ''KeyS'' then move (Vector3_mul (Vector3_new (forward s)) (-2)) s
         else if code = ''KeyA'' then move (Vector3_mul (Vector3_new (strafe_right s)) (-1)) s
         else if code = ''KeyD'' then move (strafe_right s) s
         else if code = ''KeyQ'' then yaw_key (-5) s
         else if code = ''KeyE'' then yaw_key 5 s
         else if code = ''Space'' then move (Vector3_new (up s)) s
         else if code = ''ShiftLeft'' then move (Vector3_mul (Vector3_new (up s)) (-1)) s
         else s)
      in drawScene (updateViewMatrix s1))"

text \<open>
  The \<^verbatim>\<open>mousemove\<close> listener. \<open>locked\<close> says whether
  \<^verbatim>\<open>document.pointerLockElement === canvas\<close> when the event arrives.
\<close>

definition mousemove :: "bool \<Rightarrow> real \<Rightarrow> world \<Rightarrow> world" where
  "mousemove locked movementX s =
     (if locked then
        (let sensitivity = 0.002;
             yaw = - movementX * sensitivity;
             rot = setRotate (yaw * 180 / pi) (vx (up s)) (vy (up s)) (vz (up s));
             s1 = s\<lparr>forward := Vector3_normalize (multiplyVector3 rot (forward s))\<rparr>
         in drawScene (updateViewMatrix s1))
      else s)"

text \<open>
  The state once the script has run to its end: the camera of lines 118 to 121, depth
  testing enabled, the view matrix built, and the first \<^verbatim>\<open>drawScene()\<close>. The
  projection matrix \<open>P\<close> is what \<^verbatim>\<open>setPerspective\<close> made of the canvas size, which is
  outside the script; \<open>g\<close> is the grid.
\<close>

definition map_src :: grid where
  "map_src = [[1, 0, 2, 0], [3, 0, 0, 1], [1, 0, 1, 1], [4, 0, 0, 2]]"

definition startup :: "mat4 \<Rightarrow> grid \<Rightarrow> world" where
  "startup P g =
     (let s0 = \<lparr>eye = Vec3 0 2 (-5),
                forward = Vector3_normalize (Vec3 0 0 1),
                up = Vec3 0 1 0,
                at_vec = Vec3 0 2 0,
                viewMatrix = Matrix4_new,
                projectionMatrix = Matrix4_new,
                map_grid = g,
                gl_trace = [Enable_DEPTH_TEST]\<rparr>;
          s1 = updateViewMatrix s0;
          s2 = s1\<lparr>projectionMatrix := P\<rparr>
      in drawScene s2)"

text \<open>
  The states the program can be in: the state after the script has run, and the state
  after any further event. The \<^verbatim>\<open>onload\<close> handler of the texture image calls
  \<^verbatim>\<open>drawScene()\<close>; its texture calls, like the shader setup, are not recorded.
\<close>

inductive reachable :: "mat4 \<Rightarrow> grid \<Rightarrow> world \<Rightarrow> bool" for P :: mat4 and g :: grid where
  start: "reachable P g (startup P g)"
| key: "reachable P g s \<Longrightarrow> reachable P g (keydown code s)"
| mouse: "reachable P g s \<Longrightarrow> reachable P g (mousemove locked movementX s)"
| loaded: "reachable P g s \<Longrightarrow> reachable P g (drawScene s)"

section \<open>Notions of the specification\<close>

text \<open>
  The definitions of this section do not come from the script; they say what the
  specification's words mean, so that the script can be compared with them.
\<close>

text \<open>
  The rotation by \<open>\<theta>\<close> radians about the world-up axis \<open>+Y\<close>, counter-clockwise seen
  from above (the right-hand rule).
\<close>

definition rotate_about_up :: "real \<Rightarrow> vec3 \<Rightarrow> vec3" where
  "rotate_about_up \<theta> v =
     Vec3 (cos \<theta> * vx v + sin \<theta> * vz v) (vy v) (cos \<theta> * vz v - sin \<theta> * vx v)"

text \<open>
  The camera invariant that the key handlers keep: \<open>up\<close> is world \<open>+Y\<close>, \<open>forward\<close> has
  unit length, and \<open>at - eye\<close> is a positive multiple of \<open>forward\<close>.
\<close>

definition look_inv :: "world \<Rightarrow> bool" where
  "look_inv s \<longleftrightarrow>
     up s = Vec3 0 1 0 \<and>
     Vector3_magnitude (forward s) = 1 \<and>
     0 < Vector3_magnitude (Vector3_sub (at_vec s) (eye s)) \<and>
     Vector3_sub (at_vec s) (eye s) =
       Vector3_mul (forward s) (Vector3_magnitude (Vector3_sub (at_vec s) (eye s)))"

text \<open>
  The invariant as the claim words it: \<open>up\<close> is world \<open>+Y\<close>, \<open>forward\<close> has unit
  length, and \<open>at = eye + forward\<close>.
\<close>

definition at_inv :: "world \<Rightarrow> bool" where
  "at_inv s \<longleftrightarrow>
     up s = Vec3 0 1 0 \<and>
     Vector3_magnitude (forward s) = 1 \<and>
     at_vec s = Vector3_add (eye s) (forward s)"

definition movement_codes :: "string list" where
  "movement_codes = [''KeyW'', ''KeyS'', ''KeyA'', ''KeyD'', ''Space'', ''ShiftLeft'']"

definition handled_codes :: "string list" where
  "handled_codes =
     [''KeyW'', ''KeyS'', ''KeyA'', ''KeyD'', ''KeyQ'', ''KeyE'', ''Space'', ''ShiftLeft'']"

text \<open>
  What a sequence of calls draws. The part of the context's state that a draw call
  reads: the data of the buffer bound to \<^verbatim>\<open>ARRAY_BUFFER\<close> (a buffer just created and
  bound is empty), the source of the attribute \<^verbatim>\<open>a_Position\<close> (the data of the buffer
  that was bound when its pointer was set, with size, stride and offset), and the three
  uniforms of \<^verbatim>\<open>Cube.draw\<close>. Every \<^verbatim>\<open>drawArrays\<close> call gives one \<open>drawn\<close> record: its
  mode, the positions of the vertices it reads, and the uniforms at that moment.
\<close>

record gl_state =
  array_buffer :: "real list"
  position_data :: "real list"
  position_size :: nat
  position_stride :: nat
  position_offset :: nat
  model_uniform :: mat4
  weight_uniform :: real
  color_uniform :: "real list"

record drawn =
  d_mode :: draw_mode
  d_positions :: "real list list"
  d_modelMatrix :: mat4
  d_texWeight :: real
  d_baseColor :: "real list"

definition gl_initial :: gl_state where
  "gl_initial =
     \<lparr>array_buffer = [], position_data = [], position_size = 0, position_stride = 0,
      position_offset = 0, model_uniform = [], weight_uniform = 0, color_uniform = []\<rparr>"

fun gl_step :: "gl_call \<Rightarrow> gl_state \<Rightarrow> gl_state" where
  "gl_step BindBuffer_ARRAY st = st\<lparr>array_buffer := []\<rparr>"
| "gl_step (BufferData_ARRAY d) st = st\<lparr>array_buffer := d\<rparr>"
| "gl_step (VertexAttribPointer A_Position n stride offs) st =
     st\<lparr>position_data := array_buffer st, position_size := n,
        position_stride := stride, position_offset := offs\<rparr>"
| "gl_step (UniformMatrix4fv U_ModelMatrix m) st = st\<lparr>model_uniform := m\<rparr>"
| "gl_step (Uniform1f U_texColorWeight w) st = st\<lparr>weight_uniform := w\<rparr>"
| "gl_step (Uniform4fv U_baseColor c) st = st\<lparr>color_uniform := c\<rparr>"
| "gl_step _ st = st"

definition fetch_positions :: "gl_state \<Rightarrow> nat \<Rightarrow> nat \<Rightarrow> real list list" where
  "fetch_positions st first count =
     map (\<lambda>k. take (position_size st)
                (drop (position_offset st div FSIZE + k * (position_stride st div FSIZE))
                      (position_data st)))
         [first..<first + count]"

fun gl_emit :: "gl_call \<Rightarrow> gl_state \<Rightarrow> drawn list" where
  "gl_emit (DrawArrays mode first count) st =
     [\<lparr>d_mode = mode, d_positions = fetch_positions st first count,
       d_modelMatrix = model_uniform st, d_texWeight = weight_uniform st,
       d_baseColor = color_uniform st\<rparr>]"
| "gl_emit _ st = []"

fun draws :: "gl_state \<Rightarrow> gl_call list \<Rightarrow> drawn list" where
  "draws st [] = []"
| "draws st (c # cs) = gl_emit c st @ draws (gl_step c st) cs"

definition is_draw :: "gl_call \<Rightarrow> bool" where
  "is_draw c = (case c of DrawArrays m f n \<Rightarrow> True | _ \<Rightarrow> False)"

text \<open>The four corners of the face \<open>z = +0.5\<close> of the unit cube, as a triangle strip.\<close>

definition face_positions :: "real list list" where
  "face_positions = [[-0.5, -0.5, 0.5], [0.5, -0.5, 0.5], [-0.5, 0.5, 0.5], [0.5, 0.5, 0.5]]"

text \<open>The draw of one cube instance: that face, with the cube's matrix, weight and colour.\<close>

definition drawn_cube :: "cube \<Rightarrow> drawn" where
  "drawn_cube c =
     \<lparr>d_mode = TRIANGLE_STRIP, d_positions = face_positions,
      d_modelMatrix = modelMatrix c, d_texWeight = texWeight c, d_baseColor = baseColor c\<rparr>"

text \<open>
  A height grid in the sense of the specification: a rectangular grid of non-negative
  integers.
\<close>

definition height_grid :: "grid \<Rightarrow> bool" where
  "height_grid g =
     list_all (\<lambda>row. length row = length (g ! 0) \<and> list_all (\<lambda>v. 0 \<le> v) row) g"

text \<open>
  The stacked cubes of a grid in the order of the specification: row by row, cell by
  cell within a row, bottom to top within a cell.
\<close>

definition stacked_cubes :: "grid \<Rightarrow> cube list" where
  "stacked_cubes g =
     concat (map (\<lambda>i.
       concat (map (\<lambda>j. map (\<lambda>h. stack_cube i h j) [0..<nat (g ! i ! j)])
                   [0..<length (g ! i)]))
       [0..<length g])"

text \<open>
  The cubes that the loops of \<^verbatim>\<open>drawScene\<close> go through on any grid, rectangular or
  not: the columns are those of row 0.
\<close>

definition cell_height :: "grid \<Rightarrow> nat \<Rightarrow> nat \<Rightarrow> nat" where
  "cell_height g i j = (case cell g i j of None \<Rightarrow> 0 | Some v \<Rightarrow> nat v)"

definition loop_cubes :: "grid \<Rightarrow> cube list" where
  "loop_cubes g =
     concat (map (\<lambda>i.
       concat (map (\<lambda>j. map (\<lambda>h. stack_cube i h j) [0..<cell_height g i j])
                   [0..<length (g ! 0)]))
       [0..<length g])"

section \<open>Facts about the vectors, the handlers and the loops\<close>

lemma Vector3_new_id [simp]: "Vector3_new v = v"
  by (simp add: Vector3_new_def)

lemma sub_add_cancel: "Vector3_sub (Vector3_add a m) (Vector3_add e m) = Vector3_sub a e"
  by (simp add: Vector3_sub_def Vector3_add_def)

lemma sub_add_left: "Vector3_sub (Vector3_add e m) e = m"
  by (cases m) (simp add: Vector3_sub_def Vector3_add_def)

lemma magnitude_nonneg: "0 \<le> Vector3_magnitude a"
  by (simp add: Vector3_magnitude_def)

lemma sum3_squares_zero_iff: "(x::real) * x + y * y + z * z = 0 \<longleftrightarrow> x = 0 \<and> y = 0 \<and> z = 0"
proof
  assume h: "x * x + y * y + z * z = 0"
  have "0 \<le> x * x" "0 \<le> y * y" "0 \<le> z * z" by simp_all
  with h have "x * x = 0" "y * y = 0" "z * z = 0" by linarith+
  then show "x = 0 \<and> y = 0 \<and> z = 0" by simp
qed simp

lemma magnitude_zero_iff: "Vector3_magnitude a = 0 \<longleftrightarrow> a = Vec3 0 0 0"
  by (cases a) (simp add: Vector3_magnitude_def sum3_squares_zero_iff)

lemma magnitude_mul: "Vector3_magnitude (Vector3_mul a k) = \<bar>k\<bar> * Vector3_magnitude a"
proof -
  have "vx a * k * (vx a * k) + vy a * k * (vy a * k) + vz a * k * (vz a * k)
        = (k * k) * (vx a * vx a + vy a * vy a + vz a * vz a)"
    by (simp add: algebra_simps)
  then show ?thesis
    by (simp add: Vector3_magnitude_def Vector3_mul_def real_sqrt_mult)
qed

lemma normalize_eq_mul:
  "Vector3_magnitude a \<noteq> 0 \<Longrightarrow> Vector3_normalize a = Vector3_mul a (1 / Vector3_magnitude a)"
  by (simp add: Vector3_normalize_def Vector3_mul_def Let_def)

lemma magnitude_normalize: "a \<noteq> Vec3 0 0 0 \<Longrightarrow> Vector3_magnitude (Vector3_normalize a) = 1"
proof -
  assume "a \<noteq> Vec3 0 0 0"
  then have m: "Vector3_magnitude a \<noteq> 0" by (simp add: magnitude_zero_iff)
  moreover have "0 \<le> Vector3_magnitude a" by (rule magnitude_nonneg)
  ultimately show ?thesis
    by (simp add: normalize_eq_mul magnitude_mul)
qed

lemma normalize_unit: "Vector3_magnitude a = 1 \<Longrightarrow> Vector3_normalize a = a"
  by (cases a) (simp add: Vector3_normalize_def)

lemma unit_nonzero: "Vector3_magnitude a = 1 \<Longrightarrow> a \<noteq> Vec3 0 0 0"
  using magnitude_zero_iff [of a] by auto

lemma setRotate_up:
  "multiplyVector3 (setRotate angle 0 1 0) v = rotate_about_up (pi * angle / 180) v"
  by (simp add: multiplyVector3_def setRotate_def rotate_about_up_def Let_def algebra_simps)

lemma rotation_keeps_squares:
  fixes c s x y z :: real
  assumes "c * c + s * s = 1"
  shows "(c * x + s * z) * (c * x + s * z) + y * y + (c * z - s * x) * (c * z - s * x)
         = x * x + y * y + z * z"
proof -
  have "(c * x + s * z) * (c * x + s * z) + y * y + (c * z - s * x) * (c * z - s * x)
        = (c * c + s * s) * (x * x + z * z) + y * y"
    by (simp add: algebra_simps)
  with assms show ?thesis by simp
qed

lemma magnitude_rotate: "Vector3_magnitude (rotate_about_up \<theta> v) = Vector3_magnitude v"
  by (simp add: Vector3_magnitude_def rotate_about_up_def rotation_keeps_squares)

lemma drawScene_camera [simp]:
  "eye (drawScene s) = eye s" "forward (drawScene s) = forward s"
  "up (drawScene s) = up s" "at_vec (drawScene s) = at_vec s"
  "viewMatrix (drawScene s) = viewMatrix s" "projectionMatrix (drawScene s) = projectionMatrix s"
  "map_grid (drawScene s) = map_grid s"
  by (simp_all add: drawScene_def)

lemma updateViewMatrix_camera [simp]:
  "eye (updateViewMatrix s) = eye s" "forward (updateViewMatrix s) = forward s"
  "up (updateViewMatrix s) = up s" "at_vec (updateViewMatrix s) = at_vec s"
  "projectionMatrix (updateViewMatrix s) = projectionMatrix s"
  "map_grid (updateViewMatrix s) = map_grid s" "gl_trace (updateViewMatrix s) = gl_trace s"
  by (simp_all add: updateViewMatrix_def)

lemma move_camera:
  "eye (move d s) = Vector3_add (eye s) (Vector3_mul (Vector3_normalize d) 0.3)"
  "at_vec (move d s) = Vector3_add (at_vec s) (Vector3_mul (Vector3_normalize d) 0.3)"
  "forward (move d s) = forward s" "up (move d s) = up s"
  by (simp_all add: move_def Let_def)

lemma yaw_key_camera:
  "eye (yaw_key a s) = eye s" "up (yaw_key a s) = up s"
  "forward (yaw_key a s) =
     Vector3_normalize (multiplyVector3 (setRotate a (vx (up s)) (vy (up s)) (vz (up s))) (forward s))"
  "at_vec (yaw_key a s) = Vector3_add (eye (yaw_key a s)) (forward (yaw_key a s))"
  by (simp_all add: yaw_key_def Let_def)

lemma keydown_fields:
  "keydown code s = drawScene (updateViewMatrix
        (if code = ''KeyW'' then move (forward s) s
         else if code = ''KeyS'' then move (Vector3_mul (forward s) (-2)) s
         else if code = ''KeyA'' then move (Vector3_mul (strafe_right s) (-1)) s
         else if code = ''KeyD'' then move (strafe_right s) s
         else if code = ''KeyQ'' then yaw_key (-5) s
         else if code = ''KeyE'' then yaw_key 5 s
         else if code = ''Space'' then move (up s) s
         else if code = ''ShiftLeft'' then move (Vector3_mul (up s) (-1)) s
         else s))"
  by (simp add: keydown_def Let_def)

lemma keydown_yaw:
  "keydown ''KeyQ'' s = drawScene (updateViewMatrix (yaw_key (-5) s))"
  "keydown ''KeyE'' s = drawScene (updateViewMatrix (yaw_key 5 s))"
  by (simp_all add: keydown_def)

lemma yaw_key_forward:
  "up s = Vec3 0 1 0 \<Longrightarrow>
   forward (yaw_key a s) = Vector3_normalize (rotate_about_up (pi * a / 180) (forward s))"
  by (simp add: yaw_key_camera setRotate_up)

lemma rotate_nonzero: "v \<noteq> Vec3 0 0 0 \<Longrightarrow> rotate_about_up \<theta> v \<noteq> Vec3 0 0 0"
  using magnitude_rotate [of \<theta> v] magnitude_zero_iff [of v]
        magnitude_zero_iff [of "rotate_about_up \<theta> v"] by simp

lemma mousemove_forward:
  "up s = Vec3 0 1 0 \<Longrightarrow>
   forward (mousemove True dx s)
     = Vector3_normalize (rotate_about_up (- dx * 0.002) (forward s))"
  by (simp add: mousemove_def Let_def setRotate_up)

lemma mousemove_at: "at_vec (mousemove locked dx s) = at_vec s" "eye (mousemove locked dx s) = eye s"
   "up (mousemove locked dx s) = up s"
  by (simp_all add: mousemove_def Let_def)

lemma magnitude_move_step:
  assumes "d \<noteq> Vec3 0 0 0"
  shows "Vector3_magnitude (Vector3_mul (Vector3_normalize d) 0.3) = 0.3"
  using assms by (simp add: magnitude_mul magnitude_normalize)

lemma mul_nonzero: "v \<noteq> Vec3 0 0 0 \<Longrightarrow> k \<noteq> 0 \<Longrightarrow> Vector3_mul v k \<noteq> Vec3 0 0 0"
  by (cases v) (auto simp: Vector3_mul_def)

lemma magnitude_z_axis [simp]: "Vector3_magnitude (Vec3 0 0 z) = \<bar>z\<bar>"
  by (simp add: Vector3_magnitude_def)

lemma magnitude_x_axis [simp]: "Vector3_magnitude (Vec3 x 0 0) = \<bar>x\<bar>"
  by (simp add: Vector3_magnitude_def)

lemma startup_camera:
  "eye (startup P g) = Vec3 0 2 (-5)" "forward (startup P g) = Vec3 0 0 1"
  "up (startup P g) = Vec3 0 1 0" "at_vec (startup P g) = Vec3 0 2 0"
  by (simp_all add: startup_def Let_def Vector3_normalize_def)

lemma look_inv_startup: "look_inv (startup P g)"
  by (simp add: look_inv_def startup_camera Vector3_sub_def Vector3_mul_def)

lemma look_inv_cong:
  "eye t = eye s \<Longrightarrow> forward t = forward s \<Longrightarrow> up t = up s \<Longrightarrow> at_vec t = at_vec s
   \<Longrightarrow> look_inv t = look_inv s"
  by (simp add: look_inv_def)

lemma look_inv_redraw: "look_inv (drawScene (updateViewMatrix s)) = look_inv s"
  by (rule look_inv_cong) simp_all

lemma look_inv_move: "look_inv s \<Longrightarrow> look_inv (move d s)"
  by (simp add: look_inv_def move_camera sub_add_cancel)

lemma look_inv_yaw_key:
  assumes "look_inv s"
  shows "look_inv (yaw_key a s)"
proof -
  from assms have u: "up s = Vec3 0 1 0" and f: "Vector3_magnitude (forward s) = 1"
    by (simp_all add: look_inv_def)
  from f have "forward s \<noteq> Vec3 0 0 0" by (rule unit_nonzero)
  then have "rotate_about_up (pi * a / 180) (forward s) \<noteq> Vec3 0 0 0"
    by (rule rotate_nonzero)
  then have m: "Vector3_magnitude (forward (yaw_key a s)) = 1"
    using u by (simp add: yaw_key_forward magnitude_normalize)
  have d: "Vector3_sub (at_vec (yaw_key a s)) (eye (yaw_key a s)) = forward (yaw_key a s)"
    by (simp add: yaw_key_camera(1,4) sub_add_left)
  have "Vector3_mul (forward (yaw_key a s)) 1 = forward (yaw_key a s)"
    by (cases "forward (yaw_key a s)") (simp add: Vector3_mul_def)
  with m d u show ?thesis
    by (simp add: look_inv_def yaw_key_camera(2))
qed

lemma sin_fifth_pos: "0 < sin (1 / 5 :: real)"
proof -
  have "(1 / 5 :: real) < pi" using pi_ge_two by simp
  then show ?thesis by (intro sin_gt_zero) simp_all
qed

lemma rotate_fixed_sin_zero:
  assumes "rotate_about_up \<theta> v = v" and "vx v \<noteq> 0 \<or> vz v \<noteq> 0"
  shows "sin \<theta> = 0"
proof -
  from assms(1) have a: "cos \<theta> * vx v + sin \<theta> * vz v = vx v"
    and b: "cos \<theta> * vz v - sin \<theta> * vx v = vz v"
    by (cases v; simp add: rotate_about_up_def)+
  have "sin \<theta> * (vx v * vx v + vz v * vz v)
        = (cos \<theta> * vx v + sin \<theta> * vz v) * vz v - (cos \<theta> * vz v - sin \<theta> * vx v) * vx v"
    by (simp add: algebra_simps)
  also have "\<dots> = 0" unfolding a b by simp
  finally have "sin \<theta> = 0 \<or> vx v * vx v + vz v * vz v = 0" by simp
  moreover have "vx v * vx v + vz v * vz v \<noteq> 0"
    using assms(2) sum3_squares_zero_iff [of "vx v" 0 "vz v"] by auto
  ultimately show ?thesis by blast
qed

lemma add_left_cancel3: "Vector3_add e a = Vector3_add e b \<Longrightarrow> a = b"
  by (cases a; cases b) (simp add: Vector3_add_def)

lemma mouse_look_leaves_at_stale:
  assumes u: "up s = Vec3 0 1 0" and m: "Vector3_magnitude (forward s) = 1"
    and h: "vx (forward s) \<noteq> 0 \<or> vz (forward s) \<noteq> 0"
    and a: "at_vec s = Vector3_add (eye s) (forward s)"
    and d: "sin (- movementX * 0.002) \<noteq> 0"
  shows "at_vec (mousemove True movementX s)
         \<noteq> Vector3_add (eye (mousemove True movementX s)) (forward (mousemove True movementX s))"
proof
  let ?r = "rotate_about_up (- movementX * 0.002) (forward s)"
  assume "at_vec (mousemove True movementX s)
         = Vector3_add (eye (mousemove True movementX s)) (forward (mousemove True movementX s))"
  then have "Vector3_add (eye s) (forward s) = Vector3_add (eye s) (Vector3_normalize ?r)"
    using u a by (simp add: mousemove_at mousemove_forward)
  then have "forward s = Vector3_normalize ?r" by (rule add_left_cancel3)
  moreover have "Vector3_normalize ?r = ?r"
    by (rule normalize_unit) (simp add: magnitude_rotate m)
  ultimately have "?r = forward s" by simp
  then have "sin (- movementX * 0.002) = 0" using h by (rule rotate_fixed_sin_zero)
  with d show False by simp
qed

lemma unit_flat_nonzero:
  assumes "Vector3_magnitude v = 1" and "vy v = 0"
  shows "vx v \<noteq> 0 \<or> vz v \<noteq> 0"
proof (rule ccontr)
  assume "\<not> (vx v \<noteq> 0 \<or> vz v \<noteq> 0)"
  with assms(2) have "Vector3_magnitude v = 0" by (simp add: Vector3_magnitude_def)
  with assms(1) show False by simp
qed

lemma dot_cross_left: "Vector3_dot (Vector3_cross a b) a = 0"
  by (simp add: Vector3_dot_def Vector3_cross_def algebra_simps)

lemma dot_cross_right: "Vector3_dot (Vector3_cross a b) b = 0"
  by (simp add: Vector3_dot_def Vector3_cross_def algebra_simps)

lemma dot_normalize_zero: "Vector3_dot a b = 0 \<Longrightarrow> Vector3_dot (Vector3_normalize a) b = 0"
proof -
  assume h: "Vector3_dot a b = 0"
  have "Vector3_dot (Vector3_normalize a) b = Vector3_dot a b / Vector3_magnitude a"
    if "Vector3_magnitude a \<noteq> 0"
    using that by (simp add: Vector3_normalize_def Vector3_dot_def Let_def add_divide_distrib)
  with h show ?thesis
    by (cases "Vector3_magnitude a = 0") (simp_all add: Vector3_normalize_def Let_def)
qed

lemma strafe_right_perpendicular:
  "Vector3_dot (strafe_right s) (up s) = 0"
  "Vector3_dot (strafe_right s) (Vector3_normalize (Vector3_sub (at_vec s) (eye s))) = 0"
  by (simp_all add: strafe_right_def Let_def dot_normalize_zero dot_cross_left dot_cross_right)

lemma strafe_right_startup: "strafe_right (startup P g) = Vec3 (- 1) 0 0"
  by (simp add: strafe_right_def Let_def startup_camera Vector3_sub_def Vector3_cross_def
      Vector3_normalize_def)

lemma strafe_right_cong:
  "eye t = eye s \<Longrightarrow> up t = up s \<Longrightarrow> at_vec t = at_vec s \<Longrightarrow> strafe_right t = strafe_right s"
  by (simp add: strafe_right_def)

lemma draws_append:
  "draws st (xs @ ys) = draws st xs @ draws (fold gl_step xs st) ys"
  by (induction xs arbitrary: st) simp_all

lemma upt_0_4: "[0..<4] = [0, 1, 2, 3]"
  by code_simp

lemma draws_build_and_draw:
  assumes "vertices c = Cube_vertices"
  shows "draws st (build_and_draw c) = [drawn_cube c]"
  using assms
  by (simp add: build_and_draw_def Cube_new_calls_def Cube_draw_def drawn_cube_def
      fetch_positions_def FSIZE_def Cube_vertices_def face_positions_def upt_0_4)

lemma draws_cubes:
  assumes "\<forall>c \<in> set cs. vertices c = Cube_vertices"
  shows "draws st (concat (map build_and_draw cs)) = map drawn_cube cs"
  using assms
proof (induction cs arbitrary: st)
  case Nil
  then show ?case by simp
next
  case (Cons c cs)
  then show ?case
    by (simp add: draws_append draws_build_and_draw)
qed

lemma below_height_None [simp]: "\<not> below_height h None"
  by (simp add: below_height_def)

lemma below_height_Some [simp]: "below_height h (Some v) \<longleftrightarrow> h < nat v"
  by (auto simp: below_height_def)

lemma loop_h_cubes:
  "loop_h i j height h
   = concat (map (\<lambda>k. build_and_draw (stack_cube i k j))
                 [h..<(case height of None \<Rightarrow> 0 | Some v \<Rightarrow> nat v)])"
proof (induction i j height h rule: loop_h.induct)
  case (1 i j height h)
  show ?case
  proof (cases "below_height h height")
    case True
    then obtain v where v: "height = Some v" "h < nat v"
      by (cases height) auto
    with True "1" show ?thesis
      by (subst loop_h.simps) (simp add: upt_conv_Cons)
  next
    case False
    then show ?thesis
      by (subst loop_h.simps) (cases height; simp)
  qed
qed

lemma loop_j_cubes:
  "loop_j g i j = concat (map (\<lambda>k. loop_h i k (cell g i k) 0) [j..<length (g ! 0)])"
proof (induction g i j rule: loop_j.induct)
  case (1 g i j)
  show ?case
  proof (cases "j < length (g ! 0)")
    case True
    with "1" show ?thesis
      by (subst loop_j.simps) (simp add: upt_conv_Cons)
  next
    case False
    then show ?thesis
      by (subst loop_j.simps) simp
  qed
qed

lemma loop_i_cubes:
  "loop_i g i = concat (map (\<lambda>k. loop_j g k 0) [i..<length g])"
proof (induction g i rule: loop_i.induct)
  case (1 g i)
  show ?case
  proof (cases "i < length g")
    case True
    with "1" show ?thesis
      by (subst loop_i.simps) (simp add: upt_conv_Cons)
  next
    case False
    then show ?thesis
      by (subst loop_i.simps) simp
  qed
qed

lemma concat_map_concat:
  "concat (map f (concat xss)) = concat (map (\<lambda>xs. concat (map f xs)) xss)"
  by (induction xss) simp_all

lemma loop_i_loop_cubes: "loop_i g 0 = concat (map build_and_draw (loop_cubes g))"
  by (simp add: loop_i_cubes loop_j_cubes loop_h_cubes loop_cubes_def cell_height_def
      concat_map_concat o_def)

lemma vertices_Cube_new [simp]: "vertices (Cube_new m w c) = Cube_vertices"
  by (simp add: Cube_new_def)

lemma vertices_scene [simp]:
  "vertices sky = Cube_vertices" "vertices ground = Cube_vertices"
  "vertices (stack_cube i h j) = Cube_vertices"
  by (simp_all add: sky_def ground_def stack_cube_def)

lemma vertices_loop_cubes: "\<forall>c \<in> set (loop_cubes g). vertices c = Cube_vertices"
  by (auto simp: loop_cubes_def)

lemma draws_drawScene_calls:
  "draws st (drawScene_calls view proj g) = map drawn_cube (sky # ground # loop_cubes g)"
  by (simp add: drawScene_calls_def draws_append draws_build_and_draw loop_i_loop_cubes
      draws_cubes vertices_loop_cubes)

lemma height_grid_row:
  assumes "height_grid g" and "i < length g"
  shows "length (g ! i) = length (g ! 0)" and "\<forall>v \<in> set (g ! i). 0 \<le> v"
proof -
  from assms(2) have "g ! i \<in> set g" by simp
  with assms(1) show "length (g ! i) = length (g ! 0)" and "\<forall>v \<in> set (g ! i). 0 \<le> v"
    by (auto simp: height_grid_def list_all_iff)
qed

lemma loop_cubes_stacked:
  assumes "height_grid g"
  shows "loop_cubes g = stacked_cubes g"
proof -
  have row: "concat (map (\<lambda>j. map (\<lambda>h. stack_cube i h j) [0..<cell_height g i j]) [0..<length (g ! 0)])
      = concat (map (\<lambda>j. map (\<lambda>h. stack_cube i h j) [0..<nat (g ! i ! j)]) [0..<length (g ! i)])"
    if "i \<in> set [0..<length g]" for i
  proof -
    from that have "i < length g" by simp
    with assms have l: "length (g ! i) = length (g ! 0)" by (rule height_grid_row)
    have "map (\<lambda>j. map (\<lambda>h. stack_cube i h j) [0..<cell_height g i j]) [0..<length (g ! 0)]
        = map (\<lambda>j. map (\<lambda>h. stack_cube i h j) [0..<nat (g ! i ! j)]) [0..<length (g ! 0)]"
      by (rule map_cong [OF refl]) (simp add: cell_height_def cell_def l)
    then show ?thesis unfolding l by (rule arg_cong)
  qed
  have "map (\<lambda>i. concat (map (\<lambda>j. map (\<lambda>h. stack_cube i h j) [0..<cell_height g i j])
                                [0..<length (g ! 0)])) [0..<length g]
      = map (\<lambda>i. concat (map (\<lambda>j. map (\<lambda>h. stack_cube i h j) [0..<nat (g ! i ! j)])
                                [0..<length (g ! i)])) [0..<length g]"
    by (rule map_cong [OF refl]) (rule row)
  then show ?thesis
    unfolding loop_cubes_def stacked_cubes_def by (rule arg_cong)
qed

lemma map_nth_fun: "map (\<lambda>i. f (xs ! i)) [0..<length xs] = map f xs"
  by (rule nth_equalityI) simp_all

lemma sum_list_nat_nonneg:
  "\<forall>v \<in> set row. 0 \<le> v \<Longrightarrow> int (sum_list (map nat row)) = sum_list row"
  by (induction row) simp_all

lemma length_stacked_row:
  "length (concat (map (\<lambda>j. map (\<lambda>h. stack_cube i h j) [0..<nat (row ! j)]) [0..<length row]))
   = sum_list (map nat row)"
proof -
  have "length (concat (map (\<lambda>j. map (\<lambda>h. stack_cube i h j) [0..<nat (row ! j)]) [0..<length row]))
        = sum_list (map (\<lambda>j. nat (row ! j)) [0..<length row])"
    by (simp add: length_concat o_def)
  then show ?thesis by (simp only: map_nth_fun [of nat row])
qed

lemma length_concat_map:
  "length (concat (map F xs)) = sum_list (map (\<lambda>x. length (F x)) xs)"
  by (simp add: length_concat o_def)

lemma length_stacked_cubes:
  "length (stacked_cubes g) = sum_list (map (\<lambda>row. sum_list (map nat row)) g)"
proof -
  have "length (stacked_cubes g)
        = sum_list (map (\<lambda>i. sum_list (map nat (g ! i))) [0..<length g])"
    unfolding stacked_cubes_def length_concat_map [of _ "[0..<length g]"] length_stacked_row ..
  then show ?thesis
    by (simp only: map_nth_fun [of "\<lambda>row. sum_list (map nat row)" g])
qed

lemma count_stacked_cubes:
  assumes "height_grid g"
  shows "int (length (stacked_cubes g)) = sum_list (map sum_list g)"
proof -
  have rows: "\<forall>row \<in> set g. \<forall>v \<in> set row. 0 \<le> v"
    using assms by (auto simp: height_grid_def list_all_iff)
  have "int (sum_list (map (\<lambda>row. sum_list (map nat row)) rs)) = sum_list (map sum_list rs)"
    if "\<forall>row \<in> set rs. \<forall>v \<in> set row. 0 \<le> v" for rs
    using that by (induction rs) (simp_all add: sum_list_nat_nonneg)
  from this [OF rows] show ?thesis by (simp add: length_stacked_cubes)
qed

lemma stacked_example:
  "stacked_cubes [[1, 0], [0, 2]] = [stack_cube 0 0 0, stack_cube 1 0 1, stack_cube 1 1 1]"
  by (simp add: stacked_cubes_def upt_rec)

lemma height_grid_example: "height_grid [[1, 0], [0, 2]]"
  by (simp add: height_grid_def)

lemma is_draw_build_and_draw:
  "c \<in> set (build_and_draw b) \<Longrightarrow> is_draw c \<Longrightarrow> c = DrawArrays TRIANGLE_STRIP 0 4"
  by (auto simp: build_and_draw_def Cube_new_calls_def Cube_draw_def is_draw_def)

lemma BufferData_build_and_draw:
  "BufferData_ARRAY d \<in> set (build_and_draw b) \<Longrightarrow> d = vertices b"
  by (auto simp: build_and_draw_def Cube_new_calls_def Cube_draw_def)

lemma drawScene_calls_set:
  "set (drawScene_calls view proj g)
   = {ClearColor 0.5 0.7 1 1, Clear_COLOR_DEPTH, UniformMatrix4fv U_ViewMatrix view,
      UniformMatrix4fv U_ProjectionMatrix proj}
     \<union> (\<Union>b \<in> set (sky # ground # loop_cubes g). set (build_and_draw b))"
  by (auto simp: drawScene_calls_def loop_i_loop_cubes)

lemma face_positions_z: "\<forall>p \<in> set face_positions. length p = 3 \<and> p ! 2 = 1 / 2"
  by (simp add: face_positions_def)

lemma loop_cubes_example:
  "loop_cubes [[1, 0], [0, 2]] = [stack_cube 0 0 0, stack_cube 1 0 1, stack_cube 1 1 1]"
  using loop_cubes_stacked [OF height_grid_example] by (simp add: stacked_example)

lemma keydown_up: "up (keydown code s) = up s"
  by (simp add: keydown_fields move_camera yaw_key_camera)

lemma keydown_forward_unit:
  assumes "up s = Vec3 0 1 0" and "Vector3_magnitude (forward s) = 1"
  shows "Vector3_magnitude (forward (keydown code s)) = 1"
proof -
  from assms(2) have "forward s \<noteq> Vec3 0 0 0" by (rule unit_nonzero)
  then have "Vector3_magnitude (forward (yaw_key a s)) = 1" for a
    using assms(1) by (simp add: yaw_key_forward magnitude_normalize rotate_nonzero)
  with assms(2) show ?thesis
    by (simp add: keydown_fields move_camera)
qed

lemma mousemove_forward_unit:
  assumes "up s = Vec3 0 1 0" and "Vector3_magnitude (forward s) = 1"
  shows "Vector3_magnitude (forward (mousemove locked movementX s)) = 1"
proof (cases locked)
  case True
  from assms(2) have "forward s \<noteq> Vec3 0 0 0" by (rule unit_nonzero)
  with True assms(1) show ?thesis
    by (simp add: mousemove_forward magnitude_normalize rotate_nonzero)
next
  case False
  with assms(2) show ?thesis by (simp add: mousemove_def)
qed

lemma reachable_camera:
  "reachable P g s \<Longrightarrow> up s = Vec3 0 1 0 \<and> Vector3_magnitude (forward s) = 1"
proof (induction rule: reachable.induct)
  case start
  show ?case by (simp add: startup_camera)
next
  case (key s code)
  then show ?case by (simp add: keydown_up keydown_forward_unit)
next
  case (mouse s locked movementX)
  then show ?case by (simp add: mousemove_at mousemove_forward_unit)
next
  case (loaded s)
  then show ?case by simp
qed

lemma normalize_mul_neg2:
  assumes "v \<noteq> Vec3 0 0 0"
  shows "Vector3_normalize (Vector3_mul v (- 2)) = Vector3_mul (Vector3_normalize v) (- 1)"
proof -
  from assms have m: "Vector3_magnitude v \<noteq> 0" by (simp add: magnitude_zero_iff)
  have "0 \<le> Vector3_magnitude v" by (rule magnitude_nonneg)
  have m2: "Vector3_magnitude (Vector3_mul v (- 2)) = 2 * Vector3_magnitude v"
    by (simp add: magnitude_mul)
  show ?thesis
    using m by (simp add: Vector3_normalize_def [of "Vector3_mul v (- 2)"] m2 Let_def)
      (simp add: Vector3_normalize_def Vector3_mul_def Let_def)
qed

lemma mul_mul: "Vector3_mul (Vector3_mul v a) b = Vector3_mul v (a * b)"
  by (simp add: Vector3_mul_def algebra_simps)

lemma add_add_swap:
  "Vector3_add (Vector3_add e f) m = Vector3_add (Vector3_add e m) f"
  by (simp add: Vector3_add_def)

lemma at_inv_cong:
  "eye t = eye s \<Longrightarrow> forward t = forward s \<Longrightarrow> up t = up s \<Longrightarrow> at_vec t = at_vec s
   \<Longrightarrow> at_inv t = at_inv s"
  by (simp add: at_inv_def)

lemma at_inv_redraw: "at_inv (drawScene (updateViewMatrix s)) = at_inv s"
  by (rule at_inv_cong) simp_all

lemma at_inv_move: "at_inv s \<Longrightarrow> at_inv (move d s)"
  by (simp add: at_inv_def move_camera add_add_swap)

lemma at_inv_yaw_key:
  assumes "at_inv s"
  shows "at_inv (yaw_key a s)"
proof -
  from assms have u: "up s = Vec3 0 1 0" and f: "Vector3_magnitude (forward s) = 1"
    by (simp_all add: at_inv_def)
  from f have "forward s \<noteq> Vec3 0 0 0" by (rule unit_nonzero)
  then have "rotate_about_up (pi * a / 180) (forward s) \<noteq> Vec3 0 0 0"
    by (rule rotate_nonzero)
  then have m: "Vector3_magnitude (forward (yaw_key a s)) = 1"
    using u by (simp add: yaw_key_forward magnitude_normalize)
  with u show ?thesis
    by (simp add: at_inv_def yaw_key_camera(2,4))
qed

lemma at_inv_keydown: "at_inv s \<Longrightarrow> at_inv (keydown code s)"
  unfolding keydown_fields at_inv_redraw
  by (simp add: at_inv_move at_inv_yaw_key)

lemma look_inv_keydown: "look_inv s \<Longrightarrow> look_inv (keydown code s)"
  unfolding keydown_fields look_inv_redraw
  by (simp add: look_inv_move look_inv_yaw_key)

lemma yaw_sets_at:
  "code = ''KeyQ'' \<or> code = ''KeyE'' \<Longrightarrow>
   at_vec (keydown code s) = Vector3_add (eye (keydown code s)) (forward (keydown code s))"
  by (auto simp: keydown_yaw yaw_key_camera(4))

lemma at_inv_after_KeyQ: "at_inv (keydown ''KeyQ'' (startup P g))"
proof -
  have "up (keydown ''KeyQ'' (startup P g)) = Vec3 0 1 0"
    by (simp add: keydown_up startup_camera)
  moreover have "Vector3_magnitude (forward (keydown ''KeyQ'' (startup P g))) = 1"
    by (rule keydown_forward_unit) (simp_all add: startup_camera)
  moreover have "at_vec (keydown ''KeyQ'' (startup P g))
      = Vector3_add (eye (keydown ''KeyQ'' (startup P g))) (forward (keydown ''KeyQ'' (startup P g)))"
    by (rule yaw_sets_at) simp
  ultimately show ?thesis by (simp add: at_inv_def)
qed

lemma at_inv_not_startup: "\<not> at_inv (startup P g)"
  by (simp add: at_inv_def startup_camera Vector3_add_def)

section \<open>The claims\<close>

text \<open>
  Claim C1. The claim: every \<^verbatim>\<open>mousemove\<close> under pointer capture rotates \<open>forward\<close>
  about world-up by \<open>-movementX * 0.002\<close> radians, renormalizes it and recomputes \<open>at\<close>,
  so that afterwards \<open>at = eye + forward\<close>. The handler does rotate and renormalize
  \<open>forward\<close> (\<open>mousemove_forward\<close>), but it never assigns \<open>at\<close> (\<open>mousemove_at\<close>), as
  the yaw keys do. Evaluated after one \<^verbatim>\<open>KeyQ\<close>, where \<open>at = eye + forward\<close> holds: a
  mouse move of 100 pixels leaves \<open>at\<close> where it was, and \<open>at = eye + forward\<close> no
  longer holds.
\<close>

theorem mouse_look_at_not_recomputed:
  "at_vec (keydown ''KeyQ'' (startup Matrix4_new map_src))
     = Vector3_add (eye (keydown ''KeyQ'' (startup Matrix4_new map_src)))
                   (forward (keydown ''KeyQ'' (startup Matrix4_new map_src)))
   \<and> at_vec (mousemove True 100 (keydown ''KeyQ'' (startup Matrix4_new map_src)))
     = at_vec (keydown ''KeyQ'' (startup Matrix4_new map_src))
   \<and> at_vec (mousemove True 100 (keydown ''KeyQ'' (startup Matrix4_new map_src)))
     \<noteq> Vector3_add (eye (mousemove True 100 (keydown ''KeyQ'' (startup Matrix4_new map_src))))
                    (forward (mousemove True 100 (keydown ''KeyQ'' (startup Matrix4_new map_src))))"
proof -
  let ?s0 = "keydown ''KeyQ'' (startup Matrix4_new map_src)"
  have u: "up ?s0 = Vec3 0 1 0"
    by (simp add: keydown_yaw yaw_key_camera(2) startup_camera)
  have f: "forward ?s0 = Vector3_normalize (rotate_about_up (- (5 * pi / 180)) (Vec3 0 0 1))"
    by (simp add: keydown_yaw yaw_key_forward startup_camera)
  have r: "Vector3_magnitude (rotate_about_up (- (5 * pi / 180)) (Vec3 0 0 1)) = 1"
    by (simp add: magnitude_rotate)
  have f': "forward ?s0 = rotate_about_up (- (5 * pi / 180)) (Vec3 0 0 1)"
    unfolding f using r by (rule normalize_unit)
  have m: "Vector3_magnitude (forward ?s0) = 1"
    unfolding f' by (rule r)
  have y: "vy (forward ?s0) = 0"
    unfolding f' by (simp add: rotate_about_up_def)
  have h: "vx (forward ?s0) \<noteq> 0 \<or> vz (forward ?s0) \<noteq> 0"
    using m y by (rule unit_flat_nonzero)
  have a: "at_vec ?s0 = Vector3_add (eye ?s0) (forward ?s0)"
    by (simp add: keydown_yaw yaw_key_camera(4))
  have d: "sin (- 100 * 0.002 :: real) \<noteq> 0"
    using sin_fifth_pos by simp
  show ?thesis
    using a mouse_look_leaves_at_stale [OF u m h a d] by (simp add: mousemove_at)
qed

text \<open>
  Claim C2. The claim: \<open>at = eye + forward\<close> with \<open>forward\<close> of unit length holds at
  initialization and is kept by every camera mutation. At initialization
  \<open>eye = (0, 2, -5)\<close>, \<open>forward = (0, 0, 1)\<close> and \<open>at = (0, 2, 0)\<close>, so the equation
  fails there.
\<close>

theorem startup_at_counterexample:
  "at_vec (startup Matrix4_new map_src)
     \<noteq> Vector3_add (eye (startup Matrix4_new map_src)) (forward (startup Matrix4_new map_src))"
  by (simp add: startup_camera Vector3_add_def)

text \<open>
  Claim C2, amended. At initialization \<open>forward\<close> has unit length and
  \<open>at - eye = 5 * forward\<close>, so \<open>at = eye + forward\<close> does not hold there. The weaker
  invariant "\<open>up\<close> is world \<open>+Y\<close>, \<open>forward\<close> has unit length and \<open>at - eye\<close> is a
  positive multiple of \<open>forward\<close>" holds at initialization and is kept by every
  \<^verbatim>\<open>keydown\<close>. The invariant of the claim, "\<open>up\<close> is world \<open>+Y\<close>, \<open>forward\<close> has unit
  length and \<open>at = eye + forward\<close>", is kept by every \<^verbatim>\<open>keydown\<close> (move, strafe,
  vertical and yaw keys, and any other key) from the moment it holds, and after a yaw
  key \<open>at = eye + forward\<close> holds whatever the state was before. Nothing is said about
  mouse-look.
\<close>

theorem look_invariant:
  "look_inv (startup P g)
   \<and> Vector3_sub (at_vec (startup P g)) (eye (startup P g)) = Vector3_mul (forward (startup P g)) 5
   \<and> (look_inv s \<longrightarrow> look_inv (keydown code s))
   \<and> (at_inv s \<longrightarrow> at_inv (keydown code s))
   \<and> (code = ''KeyQ'' \<or> code = ''KeyE'' \<longrightarrow>
        at_vec (keydown code s) = Vector3_add (eye (keydown code s)) (forward (keydown code s)))"
proof (intro conjI impI)
  show "look_inv (startup P g)" by (rule look_inv_startup)
next
  show "Vector3_sub (at_vec (startup P g)) (eye (startup P g)) = Vector3_mul (forward (startup P g)) 5"
    by (simp add: startup_camera Vector3_sub_def Vector3_mul_def)
next
  assume "look_inv s"
  then show "look_inv (keydown code s)" by (rule look_inv_keydown)
next
  assume "at_inv s"
  then show "at_inv (keydown code s)" by (rule at_inv_keydown)
next
  assume "code = ''KeyQ'' \<or> code = ''KeyE''"
  then show "at_vec (keydown code s) = Vector3_add (eye (keydown code s)) (forward (keydown code s))"
    by (rule yaw_sets_at)
qed

theorem look_invariant_witness:
  "look_inv (startup Matrix4_new map_src)
   \<and> look_inv (keydown ''KeyW'' (startup Matrix4_new map_src))
   \<and> at_inv (keydown ''KeyQ'' (startup Matrix4_new map_src))
   \<and> at_inv (keydown ''KeyW'' (keydown ''KeyQ'' (startup Matrix4_new map_src)))
   \<and> at_vec (keydown ''KeyQ'' (startup Matrix4_new map_src))
       = Vector3_add (eye (keydown ''KeyQ'' (startup Matrix4_new map_src)))
                     (forward (keydown ''KeyQ'' (startup Matrix4_new map_src)))"
proof -
  have a: "at_inv (keydown ''KeyQ'' (startup Matrix4_new map_src))"
    by (rule at_inv_after_KeyQ)
  show ?thesis
    using a
      look_invariant [of Matrix4_new map_src "startup Matrix4_new map_src" "''KeyW''"]
      look_invariant [of Matrix4_new map_src "keydown ''KeyQ'' (startup Matrix4_new map_src)" "''KeyW''"]
      look_invariant [of Matrix4_new map_src "startup Matrix4_new map_src" "''KeyQ''"]
    by simp
qed

text \<open>
  Claim C3. For every height grid (rectangular, no negative height), one call of
  \<^verbatim>\<open>drawScene\<close> appends its calls to the trace, and these draw the sky, then the ground,
  then the stacked cubes row by row and bottom to top within a cell; the number of
  stacked cubes is the sum of all cell heights. The witness is the grid
  \<open>[[1, 0], [0, 2]]\<close> of the specification, with its three stacked cubes.
\<close>

theorem drawScene_order:
  assumes "height_grid (map_grid s)"
  shows "gl_trace (drawScene s)
           = gl_trace s @ drawScene_calls (viewMatrix s) (projectionMatrix s) (map_grid s)
       \<and> draws st (drawScene_calls (viewMatrix s) (projectionMatrix s) (map_grid s))
           = drawn_cube sky # drawn_cube ground # map drawn_cube (stacked_cubes (map_grid s))
       \<and> int (length (stacked_cubes (map_grid s))) = sum_list (map sum_list (map_grid s))"
  using assms
  by (simp add: drawScene_def draws_drawScene_calls loop_cubes_stacked count_stacked_cubes)

theorem drawScene_order_witness:
  "height_grid (map_grid (startup Matrix4_new [[1, 0], [0, 2]]))
   \<and> draws gl_initial (drawScene_calls (viewMatrix (startup Matrix4_new [[1, 0], [0, 2]]))
                                       (projectionMatrix (startup Matrix4_new [[1, 0], [0, 2]]))
                                       [[1, 0], [0, 2]])
     = [drawn_cube sky, drawn_cube ground,
        drawn_cube (stack_cube 0 0 0), drawn_cube (stack_cube 1 0 1), drawn_cube (stack_cube 1 1 1)]
   \<and> length (stacked_cubes [[1, 0], [0, 2]]) = 3"
proof -
  have g: "map_grid (startup Matrix4_new [[1, 0], [0, 2]]) = [[1, 0], [0, 2]]"
    by (simp add: startup_def Let_def drawScene_def updateViewMatrix_def)
  have h: "height_grid (map_grid (startup Matrix4_new [[1, 0], [0, 2]]))"
    unfolding g by (rule height_grid_example)
  show ?thesis
    using h drawScene_order [OF h, of gl_initial] by (simp add: g stacked_example)
qed

text \<open>
  Claim C4. For each of the six movement codes, \<open>at - eye\<close> is the same vector after the
  \<^verbatim>\<open>keydown\<close> as before it.
\<close>

theorem movement_keeps_look_vector:
  assumes "code \<in> set movement_codes"
  shows "Vector3_sub (at_vec (keydown code s)) (eye (keydown code s))
         = Vector3_sub (at_vec s) (eye s)"
  using assms
  by (auto simp: movement_codes_def keydown_def Let_def move_camera sub_add_cancel)

theorem movement_keeps_look_vector_witness:
  "''KeyS'' \<in> set movement_codes
   \<and> Vector3_sub (at_vec (keydown ''KeyS'' (startup Matrix4_new map_src)))
                  (eye (keydown ''KeyS'' (startup Matrix4_new map_src))) = Vec3 0 0 5"
  using movement_keeps_look_vector [of "''KeyS''" "startup Matrix4_new map_src"]
  by (simp add: movement_codes_def startup_camera Vector3_sub_def)

text \<open>
  Claim C5. With \<open>up\<close> the world-up axis, \<^verbatim>\<open>KeyQ\<close> turns \<open>forward\<close> about it by -5
  degrees and \<^verbatim>\<open>KeyE\<close> by +5 degrees, the result is renormalized, \<open>eye\<close> stays, and
  afterwards \<open>at = eye + forward\<close>.
\<close>

theorem yaw_keys_rotate:
  assumes "up s = Vec3 0 1 0"
  shows "forward (keydown ''KeyQ'' s)
           = Vector3_normalize (rotate_about_up (- (5 * pi / 180)) (forward s))
       \<and> forward (keydown ''KeyE'' s)
           = Vector3_normalize (rotate_about_up (5 * pi / 180) (forward s))
       \<and> eye (keydown ''KeyQ'' s) = eye s \<and> eye (keydown ''KeyE'' s) = eye s
       \<and> at_vec (keydown ''KeyQ'' s)
           = Vector3_add (eye (keydown ''KeyQ'' s)) (forward (keydown ''KeyQ'' s))
       \<and> at_vec (keydown ''KeyE'' s)
           = Vector3_add (eye (keydown ''KeyE'' s)) (forward (keydown ''KeyE'' s))"
  using assms by (simp add: keydown_yaw yaw_key_forward yaw_key_camera(1,2,4))

theorem yaw_keys_rotate_witness:
  "up (startup Matrix4_new map_src) = Vec3 0 1 0
   \<and> forward (keydown ''KeyQ'' (startup Matrix4_new map_src))
       = Vector3_normalize (rotate_about_up (- (5 * pi / 180)) (Vec3 0 0 1))
   \<and> forward (keydown ''KeyE'' (startup Matrix4_new map_src))
       = Vector3_normalize (rotate_about_up (5 * pi / 180) (Vec3 0 0 1))
   \<and> at_vec (keydown ''KeyQ'' (startup Matrix4_new map_src))
       = Vector3_add (Vec3 0 2 (- 5)) (forward (keydown ''KeyQ'' (startup Matrix4_new map_src)))"
  using yaw_keys_rotate [of "startup Matrix4_new map_src"]
  by (simp add: startup_camera)

text \<open>
  Claim C6. The claim: for every strafe, in every reachable state, \<open>right\<close> is
  perpendicular to \<open>forward\<close> and to \<open>up\<close>. \<open>right\<close> is always perpendicular to \<open>up\<close> and
  to the view direction \<open>normalize (at - eye)\<close> (\<open>strafe_right_perpendicular\<close>), but
  after a mouse move the view direction is no longer \<open>forward\<close>, because the handler
  leaves \<open>at\<close> as it was. Evaluated after a mouse move of 100 pixels from the initial
  state: \<open>right = (-1, 0, 0)\<close>, \<open>forward = (- sin 0.2, 0, cos 0.2)\<close>, and their dot product
  is \<open>sin 0.2\<close>, not 0.
\<close>

theorem strafe_after_mouse_look_not_perpendicular:
  "strafe_right (mousemove True 100 (startup Matrix4_new map_src)) = Vec3 (- 1) 0 0
   \<and> forward (mousemove True 100 (startup Matrix4_new map_src)) = Vec3 (- sin (1 / 5)) 0 (cos (1 / 5))
   \<and> Vector3_dot (strafe_right (mousemove True 100 (startup Matrix4_new map_src)))
                  (forward (mousemove True 100 (startup Matrix4_new map_src))) = sin (1 / 5)
   \<and> Vector3_dot (strafe_right (mousemove True 100 (startup Matrix4_new map_src)))
                  (forward (mousemove True 100 (startup Matrix4_new map_src))) \<noteq> 0"
proof -
  let ?s0 = "startup Matrix4_new map_src"
  let ?s1 = "mousemove True 100 ?s0"
  have r: "strafe_right ?s1 = Vec3 (- 1) 0 0"
    using strafe_right_cong [of ?s1 ?s0] by (simp add: mousemove_at strafe_right_startup)
  have "Vector3_magnitude (rotate_about_up (- 100 * 0.002) (Vec3 0 0 1)) = 1"
    by (simp add: magnitude_rotate)
  then have "Vector3_normalize (rotate_about_up (- 100 * 0.002) (Vec3 0 0 1))
             = rotate_about_up (- 100 * 0.002) (Vec3 0 0 1)"
    by (rule normalize_unit)
  then have f: "forward ?s1 = Vec3 (- sin (1 / 5)) 0 (cos (1 / 5))"
    by (simp add: mousemove_forward startup_camera rotate_about_up_def)
  have d: "Vector3_dot (strafe_right ?s1) (forward ?s1) = sin (1 / 5)"
    unfolding r f by (simp add: Vector3_dot_def)
  from r f d sin_fifth_pos show ?thesis by simp
qed

text \<open>
  Claim C7. \<^verbatim>\<open>move\<close> with a direction other than the zero vector adds the normalized
  direction times 0.3 to \<open>eye\<close> and to \<open>at\<close>: each moves by a distance of 0.3, whatever
  the length of the direction, and in any state (no position is excluded). So
  \<^verbatim>\<open>KeyS\<close>, whose direction is \<open>forward\<close> times -2, steps back by 0.3 along
  \<open>forward\<close>, as \<^verbatim>\<open>KeyW\<close> steps ahead by 0.3.
\<close>

theorem move_step_length:
  assumes "dirVec \<noteq> Vec3 0 0 0" and "forward s \<noteq> Vec3 0 0 0"
  shows "eye (move dirVec s) = Vector3_add (eye s) (Vector3_mul (Vector3_normalize dirVec) 0.3)
       \<and> at_vec (move dirVec s) = Vector3_add (at_vec s) (Vector3_mul (Vector3_normalize dirVec) 0.3)
       \<and> Vector3_magnitude (Vector3_sub (eye (move dirVec s)) (eye s)) = 0.3
       \<and> Vector3_magnitude (Vector3_sub (at_vec (move dirVec s)) (at_vec s)) = 0.3
       \<and> eye (keydown ''KeyW'' s)
           = Vector3_add (eye s) (Vector3_mul (Vector3_normalize (forward s)) 0.3)
       \<and> eye (keydown ''KeyS'' s)
           = Vector3_add (eye s) (Vector3_mul (Vector3_normalize (forward s)) (- 0.3))
       \<and> Vector3_magnitude (Vector3_sub (eye (keydown ''KeyS'' s)) (eye s)) = 0.3"
proof -
  have step: "Vector3_magnitude (Vector3_mul (Vector3_normalize d) 0.3) = 0.3"
    if "d \<noteq> Vec3 0 0 0" for d
    using that by (rule magnitude_move_step)
  have w: "eye (keydown ''KeyW'' s)
           = Vector3_add (eye s) (Vector3_mul (Vector3_normalize (forward s)) 0.3)"
    by (simp add: keydown_fields move_camera)
  have k: "eye (keydown ''KeyS'' s)
           = Vector3_add (eye s) (Vector3_mul (Vector3_normalize (forward s)) (- 0.3))"
    using assms(2) by (simp add: keydown_fields move_camera normalize_mul_neg2 mul_mul)
  have "Vector3_magnitude (Vector3_mul (Vector3_normalize (forward s)) (- 0.3)) = 0.3"
    using assms(2) by (simp add: magnitude_mul magnitude_normalize)
  then have l: "Vector3_magnitude (Vector3_sub (eye (keydown ''KeyS'' s)) (eye s)) = 0.3"
    unfolding k by (simp add: sub_add_left)
  from assms(1) step [of dirVec] w k l show ?thesis
    by (simp add: move_camera sub_add_left)
qed

theorem move_step_length_witness:
  "Vec3 0 0 2 \<noteq> Vec3 0 0 0
   \<and> forward (startup Matrix4_new map_src) \<noteq> Vec3 0 0 0
   \<and> eye (move (Vec3 0 0 2) (startup Matrix4_new map_src)) = Vec3 0 2 (- 4.7)
   \<and> at_vec (move (Vec3 0 0 2) (startup Matrix4_new map_src)) = Vec3 0 2 0.3
   \<and> Vector3_magnitude (Vector3_sub (eye (move (Vec3 0 0 2) (startup Matrix4_new map_src)))
                                     (eye (startup Matrix4_new map_src))) = 0.3
   \<and> eye (keydown ''KeyS'' (startup Matrix4_new map_src)) = Vec3 0 2 (- 5.3)
   \<and> Vector3_magnitude (Vector3_sub (eye (keydown ''KeyS'' (startup Matrix4_new map_src)))
                                     (eye (startup Matrix4_new map_src))) = 0.3"
  using move_step_length [of "Vec3 0 0 2" "startup Matrix4_new map_src"]
  by (simp add: startup_camera Vector3_add_def Vector3_sub_def Vector3_mul_def
      Vector3_normalize_def)

text \<open>
  Claim C8. With \<open>up\<close> the world-up axis and \<open>forward\<close> not the zero vector (both hold in
  every reachable state, \<open>reachable_camera\<close>), \<open>forward\<close> has length 1 after \<^verbatim>\<open>KeyQ\<close>,
  after \<^verbatim>\<open>KeyE\<close> and after a mouse move under pointer capture. The length is exactly 1
  in real arithmetic, hence within any tolerance.
\<close>

theorem forward_unit_after_rotation:
  assumes "up s = Vec3 0 1 0" and "forward s \<noteq> Vec3 0 0 0"
  shows "Vector3_magnitude (forward (keydown ''KeyQ'' s)) = 1
       \<and> Vector3_magnitude (forward (keydown ''KeyE'' s)) = 1
       \<and> Vector3_magnitude (forward (mousemove True movementX s)) = 1"
  using assms
  by (simp add: keydown_yaw yaw_key_forward mousemove_forward magnitude_normalize rotate_nonzero)

theorem forward_unit_after_rotation_witness:
  "up (startup Matrix4_new map_src) = Vec3 0 1 0
   \<and> forward (startup Matrix4_new map_src) \<noteq> Vec3 0 0 0
   \<and> Vector3_magnitude (forward (keydown ''KeyQ'' (startup Matrix4_new map_src))) = 1
   \<and> Vector3_magnitude (forward (keydown ''KeyE'' (startup Matrix4_new map_src))) = 1
   \<and> Vector3_magnitude (forward (mousemove True 100 (startup Matrix4_new map_src))) = 1"
  using forward_unit_after_rotation [of "startup Matrix4_new map_src" 100]
  by (simp add: startup_camera)

text \<open>
  Claim C9. A \<^verbatim>\<open>keydown\<close> whose code is none of the eight handled ones leaves \<open>eye\<close>,
  \<open>at\<close>, \<open>forward\<close> and \<open>up\<close> as they were, sets the view matrix to the look-at matrix
  of that unchanged camera, and appends the calls of one \<^verbatim>\<open>drawScene\<close> to the trace.
\<close>

theorem unhandled_key_redraws:
  assumes "code \<notin> set handled_codes"
  shows "eye (keydown code s) = eye s \<and> at_vec (keydown code s) = at_vec s
       \<and> forward (keydown code s) = forward s \<and> up (keydown code s) = up s
       \<and> viewMatrix (keydown code s) = setLookAt (eye s) (at_vec s) (up s)
       \<and> gl_trace (keydown code s)
           = gl_trace s @ drawScene_calls (setLookAt (eye s) (at_vec s) (up s))
                                          (projectionMatrix s) (map_grid s)"
  using assms
  by (simp add: handled_codes_def keydown_def Let_def drawScene_def updateViewMatrix_def)

theorem unhandled_key_redraws_witness:
  "''KeyZ'' \<notin> set handled_codes
   \<and> eye (keydown ''KeyZ'' (startup Matrix4_new map_src)) = Vec3 0 2 (- 5)
   \<and> at_vec (keydown ''KeyZ'' (startup Matrix4_new map_src)) = Vec3 0 2 0
   \<and> forward (keydown ''KeyZ'' (startup Matrix4_new map_src)) = Vec3 0 0 1
   \<and> up (keydown ''KeyZ'' (startup Matrix4_new map_src)) = Vec3 0 1 0
   \<and> viewMatrix (keydown ''KeyZ'' (startup Matrix4_new map_src))
       = setLookAt (Vec3 0 2 (- 5)) (Vec3 0 2 0) (Vec3 0 1 0)
   \<and> gl_trace (keydown ''KeyZ'' (startup Matrix4_new map_src))
       = gl_trace (startup Matrix4_new map_src)
         @ drawScene_calls (setLookAt (Vec3 0 2 (- 5)) (Vec3 0 2 0) (Vec3 0 1 0))
                           (projectionMatrix (startup Matrix4_new map_src))
                           (map_grid (startup Matrix4_new map_src))"
  using unhandled_key_redraws [of "''KeyZ''" "startup Matrix4_new map_src"]
  by (simp add: handled_codes_def startup_camera)

text \<open>
  Claim C10. On any grid, the draws of one \<^verbatim>\<open>drawScene\<close> are those of the sky, the
  ground and the cubes of the loops, one draw each; every draw is a triangle strip that
  reads exactly the four corners of the face \<open>z = +0.5\<close>; every \<^verbatim>\<open>drawArrays\<close> call is
  \<^verbatim>\<open>drawArrays(TRIANGLE_STRIP, 0, 4)\<close>, and every vertex buffer holds the four vertices
  of that face (five numbers each) and nothing else.
\<close>

theorem one_face_per_cube:
  "draws st (drawScene_calls view proj g) = map drawn_cube (sky # ground # loop_cubes g)
   \<and> (\<forall>d \<in> set (draws st (drawScene_calls view proj g)).
         d_mode d = TRIANGLE_STRIP \<and> d_positions d = face_positions
         \<and> length (d_positions d) = 4
         \<and> (\<forall>p \<in> set (d_positions d). length p = 3 \<and> p ! 2 = 1 / 2))
   \<and> (\<forall>c \<in> set (drawScene_calls view proj g).
         (is_draw c \<longrightarrow> c = DrawArrays TRIANGLE_STRIP 0 4)
         \<and> (\<forall>d. c = BufferData_ARRAY d \<longrightarrow> d = Cube_vertices \<and> length d = 4 * 5))"
proof -
  have drawn: "d_mode d = TRIANGLE_STRIP \<and> d_positions d = face_positions
         \<and> length (d_positions d) = 4
         \<and> (\<forall>p \<in> set (d_positions d). length p = 3 \<and> p ! 2 = 1 / 2)"
    if "d \<in> set (draws st (drawScene_calls view proj g))" for d
  proof -
    from that obtain b where d: "d = drawn_cube b"
      unfolding draws_drawScene_calls by auto
    have "d_positions d = face_positions" "d_mode d = TRIANGLE_STRIP"
      unfolding d by (simp_all add: drawn_cube_def)
    moreover have "length face_positions = 4"
      by (simp add: face_positions_def)
    ultimately show ?thesis
      using face_positions_z by simp
  qed
  have calls: "(is_draw c \<longrightarrow> c = DrawArrays TRIANGLE_STRIP 0 4)
         \<and> (\<forall>d. c = BufferData_ARRAY d \<longrightarrow> d = Cube_vertices \<and> length d = 4 * 5)"
    if c: "c \<in> set (drawScene_calls view proj g)" for c
  proof (intro conjI allI impI)
    assume "is_draw c"
    with c show "c = DrawArrays TRIANGLE_STRIP 0 4"
      unfolding drawScene_calls_set
      by (auto simp: is_draw_def dest: is_draw_build_and_draw [unfolded is_draw_def])
  next
    fix d
    assume "c = BufferData_ARRAY d"
    with c obtain b where "b \<in> set (sky # ground # loop_cubes g)"
      and "BufferData_ARRAY d \<in> set (build_and_draw b)"
      unfolding drawScene_calls_set by auto
    then have "d = vertices b" and "vertices b = Cube_vertices"
      using vertices_loop_cubes [of g] by (auto dest: BufferData_build_and_draw)
    then show "d = Cube_vertices" and "length d = 4 * 5"
      by (simp_all add: Cube_vertices_def)
  qed
  show ?thesis
  proof (intro conjI)
    show "draws st (drawScene_calls view proj g) = map drawn_cube (sky # ground # loop_cubes g)"
      by (rule draws_drawScene_calls)
    show "\<forall>d \<in> set (draws st (drawScene_calls view proj g)).
         d_mode d = TRIANGLE_STRIP \<and> d_positions d = face_positions
         \<and> length (d_positions d) = 4
         \<and> (\<forall>p \<in> set (d_positions d). length p = 3 \<and> p ! 2 = 1 / 2)"
      using drawn by (rule ballI)
    show "\<forall>c \<in> set (drawScene_calls view proj g).
         (is_draw c \<longrightarrow> c = DrawArrays TRIANGLE_STRIP 0 4)
         \<and> (\<forall>d. c = BufferData_ARRAY d \<longrightarrow> d = Cube_vertices \<and> length d = 4 * 5)"
      using calls by (rule ballI)
  qed
qed

theorem one_face_per_cube_witness:
  "drawn_cube (stack_cube 1 1 1)
     \<in> set (draws gl_initial (drawScene_calls Matrix4_new Matrix4_new [[1, 0], [0, 2]]))
   \<and> d_mode (drawn_cube (stack_cube 1 1 1)) = TRIANGLE_STRIP
   \<and> d_positions (drawn_cube (stack_cube 1 1 1))
       = [[- 0.5, - 0.5, 0.5], [0.5, - 0.5, 0.5], [- 0.5, 0.5, 0.5], [0.5, 0.5, 0.5]]
   \<and> DrawArrays TRIANGLE_STRIP 0 4 \<in> set (drawScene_calls Matrix4_new Matrix4_new [[1, 0], [0, 2]])
   \<and> is_draw (DrawArrays TRIANGLE_STRIP 0 4)
   \<and> length (draws gl_initial (drawScene_calls Matrix4_new Matrix4_new [[1, 0], [0, 2]])) = 5"
  using one_face_per_cube [of gl_initial Matrix4_new Matrix4_new "[[1, 0], [0, 2]]"]
  by (simp add: loop_cubes_example drawn_cube_def face_positions_def is_draw_def
      drawScene_calls_set build_and_draw_def Cube_draw_def)

end
